theory Spec2Isabelle
  imports Main "HOL-Library.Sublist" "HOL-Library.List_Lexorder" "HOL-Library.AList"
begin

section \<open>Python strings\<close>

text \<open>
  A Python \<open>str\<close> is a sequence of Unicode code points; a code point is a natural
  number. \<open>len\<close> is \<^const>\<open>length\<close>, \<open>a.startswith(b)\<close> is \<open>prefix b a\<close>,
  \<open>a in b\<close> on strings is \<open>sublist a b\<close>. A \<open>bytes\<close> value is a list of numbers
  below 256. \<open>u\<close> writes an ASCII literal as a \<open>str\<close>.
\<close>

type_synonym str = "nat list"
type_synonym bytes = "nat list"

definition u :: "string \<Rightarrow> str" where
  "u s = map of_char s"

text \<open>\<open>s.split(sep)\<close> for a one-character separator: always at least one piece.\<close>

fun split_on :: "nat \<Rightarrow> str \<Rightarrow> str list" where
  "split_on sep [] = [[]]"
| "split_on sep (c # cs) =
     (if c = sep then [] # split_on sep cs
      else (case split_on sep cs of
              [] \<Rightarrow> [[c]]
            | w # ws \<Rightarrow> (c # w) # ws))"

text \<open>\<open>sep.join(parts)\<close>.\<close>

fun join_with :: "str \<Rightarrow> str list \<Rightarrow> str" where
  "join_with sep [] = []"
| "join_with sep [p] = p"
| "join_with sep (p # q # ps) = p @ sep @ join_with sep (q # ps)"

text \<open>\<open>s.count("\n")\<close>: the number of line feeds (code point 10).\<close>

definition count_nl :: "str \<Rightarrow> nat" where
  "count_nl s = length (filter (\<lambda>c. c = 10) s)"


definition lower_cp :: "nat \<Rightarrow> nat" where
  "lower_cp c = (if 65 \<le> c \<and> c \<le> 90 then c + 32 else c)"

definition lower :: "str \<Rightarrow> str" where
  "lower s = map lower_cp s"

text \<open>\<open>s.strip()\<close> removes the code points for which \<open>str.isspace\<close> holds, at both ends.\<close>

definition isspace :: "nat \<Rightarrow> bool" where
  "isspace c \<longleftrightarrow>
     (9 \<le> c \<and> c \<le> 13) \<or> (28 \<le> c \<and> c \<le> 32) \<or> c = 133 \<or> c = 160 \<or> c = 5760 \<or>
     (8192 \<le> c \<and> c \<le> 8202) \<or> c = 8232 \<or> c = 8233 \<or> c = 8239 \<or> c = 8287 \<or> c = 12288"

definition strip :: "str \<Rightarrow> str" where
  "strip s = rev (dropWhile isspace (rev (dropWhile isspace s)))"

section \<open>Paths\<close>

text \<open>
  A \<open>pathlib.Path\<close> on a POSIX host, as its list of segments below the root \<open>/\<close>.
  The work directory \<open>WORKSPACE\<close> is a parameter \<open>ws\<close> of every operation; it is
  an absolute path. The modelled file system has no symbolic links, so that
  \<open>Path.resolve()\<close> is the lexical normalisation of \<open>..\<close> segments.
\<close>

type_synonym path = "str list"

text \<open>
  Parsing a string into segments drops empty segments and \<open>.\<close> segments and keeps
  \<open>..\<close> segments; the string is absolute when it starts with a slash (code point 47).
\<close>

definition is_absolute :: "str \<Rightarrow> bool" where
  "is_absolute s = (case s of [] \<Rightarrow> False | c # _ \<Rightarrow> c = 47)"

definition parse_parts :: "str \<Rightarrow> path" where
  "parse_parts s = filter (\<lambda>seg. seg \<noteq> [] \<and> seg \<noteq> u ''.'') (split_on 47 s)"

text \<open>\<open>WORKSPACE / relative_path\<close>: an absolute right operand replaces the left one.\<close>

definition joinpath :: "path \<Rightarrow> str \<Rightarrow> path" where
  "joinpath ws relative_path =
     (if is_absolute relative_path then parse_parts relative_path
      else ws @ parse_parts relative_path)"

text \<open>
  \<open>resolve()\<close>: a \<open>..\<close> segment removes the segment before it, and is dropped at the
  root. The accumulator holds the segments seen so far, last one first.
\<close>

fun resolve_acc :: "path \<Rightarrow> path \<Rightarrow> path" where
  "resolve_acc acc [] = rev acc"
| "resolve_acc acc (seg # segs) =
     (if seg = u ''..'' then resolve_acc (tl acc) segs
      else resolve_acc (seg # acc) segs)"

definition resolve :: "path \<Rightarrow> path" where
  "resolve p = resolve_acc [] p"

text \<open>\<open>str(path)\<close> of an absolute path.\<close>

definition path_str :: "path \<Rightarrow> str" where
  "path_str p = 47 # join_with [47] p"

text \<open>
  \<open>item.relative_to(WORKSPACE)\<close> compares segments and raises \<open>ValueError\<close> when
  \<open>WORKSPACE\<close> is not a leading part of \<open>item\<close>.
\<close>

datatype exn =
    ValueError | LookupError | NotImplementedError | UnicodeDecodeError | UnicodeEncodeError
  | PermissionError | FileNotFoundError | FileExistsError | NotADirectoryError
  | IsADirectoryError | IndexError | AttributeError

definition relative_to :: "path \<Rightarrow> path \<Rightarrow> exn + path" where
  "relative_to item ws =
     (if prefix ws item then Inr (drop (length ws) item) else Inl ValueError)"

text \<open>\<open>path.suffix\<close>: the last dot of the final segment and what follows it, unless
  that dot is the first or the last character of the segment.\<close>

fun rfind_dot :: "str \<Rightarrow> nat option" where
  "rfind_dot [] = None"
| "rfind_dot (c # cs) =
     (case rfind_dot cs of
        Some i \<Rightarrow> Some (Suc i)
      | None \<Rightarrow> if c = 46 then Some 0 else None)"

definition suffix_of_name :: "str \<Rightarrow> str" where
  "suffix_of_name name =
     (case rfind_dot name of
        None \<Rightarrow> []
      | Some i \<Rightarrow> if 0 < i \<and> i < length name - 1 then drop i name else [])"

definition path_suffix :: "path \<Rightarrow> str" where
  "path_suffix p = (if p = [] then [] else suffix_of_name (last p))"

section \<open>The path check\<close>

text \<open>
  \<open>resolve()\<close> asks the host about every named segment in turn (\<open>os.lstat\<close>),
  and on CPython 3.10 to 3.12 the call raises for a name that cannot be handed to the
  host: \<open>UnicodeEncodeError\<close> for a surrogate code point other than U+DC80 to U+DCFF
  (which stand for raw bytes), and \<open>ValueError\<close> (embedded null byte) for code point 0.
  Both are \<open>ValueError\<close>s. The first such segment decides, and within a segment the
  encoding comes first.
\<close>

datatype value_error = Outside str | EmbeddedNull | NotEncodable

definition lone_surrogate :: "nat \<Rightarrow> bool" where
  "lone_surrogate c =
     (if c < 128 then False else if c < 55296 then False else if c < 56448 then True
      else if c < 56576 then False else c < 57344)"

fun resolve_error :: "path \<Rightarrow> value_error option" where
  "resolve_error [] = None"
| "resolve_error (seg # segs) =
     (if seg = u ''..'' then resolve_error segs
      else if list_ex lone_surrogate seg then Some NotEncodable
      else if 0 \<in> set seg then Some EmbeddedNull
      else resolve_error segs)"

text \<open>
  \<open>_safe_path\<close> raises \<open>ValueError\<close> with the text of line 52; the value carried
  by \<open>Outside\<close> is the \<open>relative_path\<close> of that text. Every caller catches this
  \<open>ValueError\<close> and those of \<open>resolve()\<close> alike and returns \<open>str(e)\<close>.
\<close>

definition safe_path :: "path \<Rightarrow> str \<Rightarrow> value_error + path" where
  "safe_path ws relative_path =
     (case resolve_error (joinpath ws relative_path) of
        Some e \<Rightarrow> Inl e
      | None \<Rightarrow>
          (let full_path = resolve (joinpath ws relative_path) in
           if \<not> prefix (path_str (resolve ws)) (path_str full_path)
           then Inl (Outside relative_path)
           else Inr full_path))"

section \<open>The file system\<close>

text \<open>
  The host file system is a tree. A regular file holds its bytes and whether the
  process may open it for reading; a directory holds its entries in the order in which
  the host enumerates them (\<open>os.scandir\<close>), which is not sorted. Write permission,
  directory permissions, symbolic links and timestamps are outside the model.
\<close>

datatype node = File (readable: bool) (data: bytes) | Dir (entries: "(str \<times> node) list")

text \<open>
  Looking a path up the way the host resolves it: \<open>..\<close> steps back to the parent
  (the root is its own parent), a name steps into an entry of a directory. The first
  argument is the chain of directories above the current node.
\<close>

fun lookup_from :: "node list \<Rightarrow> node \<Rightarrow> path \<Rightarrow> node option" where
  "lookup_from anc cur [] = Some cur"
| "lookup_from anc (File r d) (seg # segs) = None"
| "lookup_from anc (Dir es) (seg # segs) =
     (if seg = u ''..'' then
        (case anc of
           [] \<Rightarrow> lookup_from [] (Dir es) segs
         | a # as \<Rightarrow> lookup_from as a segs)
      else
        (case map_of es seg of
           None \<Rightarrow> None
         | Some n \<Rightarrow> lookup_from (Dir es # anc) n segs))"

definition lookup :: "node \<Rightarrow> path \<Rightarrow> node option" where
  "lookup fs p = lookup_from [] fs p"




definition exists :: "node \<Rightarrow> path \<Rightarrow> bool" where
  "exists fs p = (lookup fs p \<noteq> None)"

definition is_file :: "node \<Rightarrow> path \<Rightarrow> bool" where
  "is_file fs p = (case lookup fs p of Some (File r d) \<Rightarrow> True | _ \<Rightarrow> False)"

definition is_dir :: "node \<Rightarrow> path \<Rightarrow> bool" where
  "is_dir fs p = (case lookup fs p of Some (Dir es) \<Rightarrow> True | _ \<Rightarrow> False)"

definition scandir :: "node \<Rightarrow> path \<Rightarrow> (str \<times> node) list" where
  "scandir fs p = (case lookup fs p of Some (Dir es) \<Rightarrow> es | _ \<Rightarrow> [])"

text \<open>\<open>item.stat().st_size\<close> of a regular file.\<close>

definition st_size :: "node \<Rightarrow> path \<Rightarrow> nat" where
  "st_size fs p = (case lookup fs p of Some (File r d) \<Rightarrow> length d | _ \<Rightarrow> 0)"

subsection \<open>Creating directories\<close>

text \<open>
  \<open>os.mkdir\<close> on a resolved path: a missing parent is \<open>FileNotFoundError\<close>, a
  regular file on the way is \<open>NotADirectoryError\<close>, an existing target is
  \<open>FileExistsError\<close>.
\<close>

fun os_mkdir :: "node \<Rightarrow> path \<Rightarrow> exn + node" where
  "os_mkdir n [] = Inl FileExistsError"
| "os_mkdir (File r d) (seg # segs) = Inl NotADirectoryError"
| "os_mkdir (Dir es) (seg # segs) =
     (case map_of es seg of
        None \<Rightarrow> if segs = [] then Inr (Dir (es @ [(seg, Dir [])])) else Inl FileNotFoundError
      | Some n \<Rightarrow>
          (case os_mkdir n segs of
             Inl e \<Rightarrow> Inl e
           | Inr n' \<Rightarrow> Inr (Dir (AList.update seg n' es))))"

text \<open>
  \<open>Path.mkdir(parents=True, exist_ok=True)\<close>: on \<open>FileNotFoundError\<close> the parent
  is created first and \<open>os.mkdir\<close> is tried again; any other \<open>OSError\<close> is
  swallowed when the path is a directory by then, and raised otherwise.
\<close>

function mkdir_parents :: "node \<Rightarrow> path \<Rightarrow> exn + node" where
  "mkdir_parents fs p =
     (case os_mkdir fs p of
        Inr fs' \<Rightarrow> Inr fs'
      | Inl e \<Rightarrow>
          if e = FileNotFoundError then
            (if p = [] then Inl e
             else (case mkdir_parents fs (butlast p) of
                     Inl e' \<Rightarrow> Inl e'
                   | Inr fs' \<Rightarrow>
                       (case os_mkdir fs' p of
                          Inr fs'' \<Rightarrow> Inr fs''
                        | Inl e'' \<Rightarrow> if is_dir fs' p then Inr fs' else Inl e'')))
          else if is_dir fs p then Inr fs else Inl e)"
  by pat_completeness auto
termination
  by (relation "measure (\<lambda>(fs, p). length p)") auto

declare mkdir_parents.simps [simp del]

subsection \<open>Opening for writing\<close>

text \<open>
  \<open>open(path, "w")\<close> followed by writing the bytes \<open>b\<close>: the file is created in
  its parent directory (readable by its creator) or, when it exists, its contents are
  replaced and its mode is kept. A directory at the path is \<open>IsADirectoryError\<close>.
\<close>

fun os_write :: "node \<Rightarrow> path \<Rightarrow> bytes \<Rightarrow> exn + node" where
  "os_write (File r d) [] b = Inr (File r b)"
| "os_write (Dir es) [] b = Inl IsADirectoryError"
| "os_write (File r d) (seg # segs) b = Inl NotADirectoryError"
| "os_write (Dir es) (seg # segs) b =
     (case map_of es seg of
        None \<Rightarrow> if segs = [] then Inr (Dir (es @ [(seg, File True b)])) else Inl FileNotFoundError
      | Some n \<Rightarrow>
          (case os_write n segs b of
             Inl e \<Rightarrow> Inl e
           | Inr n' \<Rightarrow> Inr (Dir (AList.update seg n' es))))"

section \<open>Text files\<close>

subsection \<open>UTF-8\<close>

text \<open>
  \<open>str.encode("utf-8")\<close>, strict: a surrogate (D800 to DFFF) cannot be encoded and
  raises \<open>UnicodeEncodeError\<close>; so does, in the model, a number that is no code point.
\<close>

definition utf8_encode_cp :: "nat \<Rightarrow> bytes option" where
  "utf8_encode_cp c =
     (if c < 128 then Some [c]
      else if c < 2048 then Some [192 + c div 64, 128 + c mod 64]
      else if 55296 \<le> c \<and> c < 57344 then None
      else if c < 65536 then Some [224 + c div 4096, 128 + (c div 64) mod 64, 128 + c mod 64]
      else if c < 1114112 then
        Some [240 + c div 262144, 128 + (c div 4096) mod 64, 128 + (c div 64) mod 64,
              128 + c mod 64]
      else None)"

fun utf8_encode :: "str \<Rightarrow> bytes option" where
  "utf8_encode [] = Some []"
| "utf8_encode (c # cs) =
     (case utf8_encode_cp c of
        None \<Rightarrow> None
      | Some bs \<Rightarrow> (case utf8_encode cs of None \<Rightarrow> None | Some rest \<Rightarrow> Some (bs @ rest)))"

text \<open>
  \<open>bytes.decode("utf-8")\<close>, strict: truncated sequences, stray continuation bytes,
  overlong forms, surrogates and values above 10FFFF are rejected (\<open>None\<close> is
  \<open>UnicodeDecodeError\<close>).
\<close>

definition is_cont :: "nat \<Rightarrow> bool" where
  "is_cont b \<longleftrightarrow> 128 \<le> b \<and> b < 192"

fun utf8_decode :: "bytes \<Rightarrow> str option" where
  "utf8_decode [] = Some []"
| "utf8_decode (b0 # bs) =
     (if b0 < 128 then map_option (Cons b0) (utf8_decode bs)
      else if 192 \<le> b0 \<and> b0 < 224 then
        (case bs of
           b1 # r \<Rightarrow>
             (let c = (b0 - 192) * 64 + (b1 - 128) in
              if is_cont b1 \<and> 128 \<le> c then map_option (Cons c) (utf8_decode r) else None)
         | _ \<Rightarrow> None)
      else if 224 \<le> b0 \<and> b0 < 240 then
        (case bs of
           b1 # b2 # r \<Rightarrow>
             (let c = (b0 - 224) * 4096 + (b1 - 128) * 64 + (b2 - 128) in
              if is_cont b1 \<and> is_cont b2 \<and> 2048 \<le> c \<and> \<not> (55296 \<le> c \<and> c < 57344)
              then map_option (Cons c) (utf8_decode r) else None)
         | _ \<Rightarrow> None)
      else if 240 \<le> b0 \<and> b0 < 248 then
        (case bs of
           b1 # b2 # b3 # r \<Rightarrow>
             (let c = (b0 - 240) * 262144 + (b1 - 128) * 4096 + (b2 - 128) * 64 + (b3 - 128) in
              if is_cont b1 \<and> is_cont b2 \<and> is_cont b3 \<and> 65536 \<le> c \<and> c < 1114112
              then map_option (Cons c) (utf8_decode r) else None)
         | _ \<Rightarrow> None)
      else None)"

subsection \<open>The other codecs of the model\<close>

definition ascii_decode :: "bytes \<Rightarrow> str option" where
  "ascii_decode bs = (if list_all (\<lambda>b. b < 128) bs then Some bs else None)"

definition latin1_decode :: "bytes \<Rightarrow> str option" where
  "latin1_decode bs = Some bs"

text \<open>
  \<open>codecs.lookup(encoding)\<close> as \<open>open\<close> uses it. The name is normalised first:
  ASCII letters, digits and the dot are kept, letters in lower case; every run of other
  characters between two kept ones becomes one underscore, and runs at either end are
  dropped. The normalised name is looked up in the alias table, then once more with its
  dots replaced by underscores, and at last, if it holds no dot, as the name of a codec
  module. The model holds three codecs of CPython's registry, with all their aliases.
  CPython has more codecs, and a name of one of those is outside the model, which treats
  it like a name that no codec has (\<open>LookupError\<close>).
\<close>

datatype codec = Utf8 | Ascii | Latin1

definition ascii_alnum :: "nat \<Rightarrow> bool" where
  "ascii_alnum c \<longleftrightarrow> (48 \<le> c \<and> c \<le> 57) \<or> (65 \<le> c \<and> c \<le> 90) \<or> (97 \<le> c \<and> c \<le> 122)"

fun normalize_from :: "bool \<Rightarrow> str \<Rightarrow> str \<Rightarrow> str" where
  "normalize_from punct chars [] = chars"
| "normalize_from punct chars (c # cs) =
     (if ascii_alnum c \<or> c = 46
      then normalize_from False
             (chars @ (if punct \<and> chars \<noteq> [] then [95] else []) @ [lower_cp c]) cs
      else normalize_from True chars cs)"

definition normalize_encoding :: "str \<Rightarrow> str" where
  "normalize_encoding name = normalize_from False [] name"

definition alias_of :: "str \<Rightarrow> codec option" where
  "alias_of n =
     (if n \<in> set [u ''u8'', u ''utf'', u ''utf8'', u ''utf8_ucs2'', u ''utf8_ucs4'',
                   u ''cp65001'']
      then Some Utf8
      else if n \<in> set [u ''646'', u ''ansi_x3.4_1968'', u ''ansi_x3_4_1968'',
                        u ''ansi_x3.4_1986'', u ''cp367'', u ''csascii'', u ''ibm367'',
                        u ''iso646_us'', u ''iso_646.irv_1991'', u ''iso_ir_6'', u ''us'',
                        u ''us_ascii'']
      then Some Ascii
      else if n \<in> set [u ''8859'', u ''cp819'', u ''csisolatin1'', u ''ibm819'',
                        u ''iso8859'', u ''iso8859_1'', u ''iso_8859_1'', u ''iso_8859_1_1987'',
                        u ''iso_ir_100'', u ''l1'', u ''latin'', u ''latin1'']
      then Some Latin1
      else None)"

definition module_of :: "str \<Rightarrow> codec option" where
  "module_of n =
     (if n = u ''utf_8'' then Some Utf8
      else if n = u ''ascii'' then Some Ascii
      else if n = u ''latin_1'' then Some Latin1
      else None)"

definition codecs_lookup :: "str \<Rightarrow> codec option" where
  "codecs_lookup name =
     (let n = normalize_encoding name in
      case alias_of n of
        Some c \<Rightarrow> Some c
      | None \<Rightarrow>
          (case alias_of (map (\<lambda>c. if c = 46 then 95 else c) n) of
             Some c \<Rightarrow> Some c
           | None \<Rightarrow> if 46 \<in> set n then None else module_of n))"

definition decode_with :: "codec \<Rightarrow> bytes \<Rightarrow> str option" where
  "decode_with c bs =
     (case c of Utf8 \<Rightarrow> utf8_decode bs | Ascii \<Rightarrow> ascii_decode bs | Latin1 \<Rightarrow> latin1_decode bs)"

subsection \<open>Reading and writing text\<close>

text \<open>
  A file opened in text mode with the default \<open>newline=None\<close> is read with universal
  newlines: \<open>\r\n\<close> and a lone \<open>\r\<close> (code point 13) both arrive as \<open>\n\<close>. On a
  POSIX host writing leaves \<open>\n\<close> as it is.
\<close>

fun universal_newlines :: "str \<Rightarrow> str" where
  "universal_newlines [] = []"
| "universal_newlines [c] = (if c = 13 then [10] else [c])"
| "universal_newlines (c # d # cs) =
     (if c = 13 \<and> d = 10 then 10 # universal_newlines cs
      else if c = 13 then 10 # universal_newlines (d # cs)
      else c # universal_newlines (d # cs))"

text \<open>
  \<open>path.read_text(encoding=encoding)\<close>: \<open>open\<close> takes the encoding name as a C
  string, which raises \<open>UnicodeEncodeError\<close> for a name with a surrogate code point
  and \<open>ValueError\<close> for one with code point 0; then the host opens the file
  (\<open>PermissionError\<close> when it may not be read), then the codec is looked up
  (\<open>LookupError\<close>), then the whole contents are decoded (\<open>UnicodeDecodeError\<close>).
\<close>

definition surrogate :: "nat \<Rightarrow> bool" where
  "surrogate c = (if c < 128 then False else if c < 55296 then False else c < 57344)"

definition read_text :: "node \<Rightarrow> path \<Rightarrow> str \<Rightarrow> exn + str" where
  "read_text fs p encoding =
     (if list_ex surrogate encoding then Inl UnicodeEncodeError
      else if 0 \<in> set encoding then Inl ValueError
      else
        (case lookup fs p of
           None \<Rightarrow> Inl FileNotFoundError
         | Some (Dir es) \<Rightarrow> Inl IsADirectoryError
         | Some (File r d) \<Rightarrow>
             if \<not> r then Inl PermissionError
             else (case codecs_lookup encoding of
                     None \<Rightarrow> Inl LookupError
                   | Some c \<Rightarrow>
                       (case decode_with c d of
                          None \<Rightarrow> Inl UnicodeDecodeError
                        | Some s \<Rightarrow> Inr (universal_newlines s)))))"

text \<open>
  \<open>path.write_text(content, encoding="utf-8")\<close>: the file is opened for writing, which
  creates or empties it, and then the encoded text is written. When the text cannot be
  encoded the exception leaves the emptied file behind. The result is the exception, if
  any, and the file system afterwards.
\<close>

definition write_text :: "node \<Rightarrow> path \<Rightarrow> str \<Rightarrow> exn option \<times> node" where
  "write_text fs p content =
     (case os_write fs p [] of
        Inl e \<Rightarrow> (Some e, fs)
      | Inr fs' \<Rightarrow>
          (case utf8_encode content of
             None \<Rightarrow> (Some UnicodeEncodeError, fs')
           | Some b \<Rightarrow>
               (case os_write fs' p b of
                  Inl e \<Rightarrow> (Some e, fs')
                | Inr fs'' \<Rightarrow> (None, fs''))))"

section \<open>Globbing\<close>

text \<open>
  \<open>Path.glob\<close> and \<open>Path.rglob\<close> as CPython 3.11 and 3.12 implement them on a POSIX
  host: the pattern is parsed into segments like a path, and each segment becomes a
  selector. \<open>**\<close> alone walks the directories below and including the start, a
  segment with a wildcard character is matched against the names of a directory, any
  other segment (also \<open>..\<close>) names one entry. A pattern that ends in a slash gets an
  empty last segment, which ends the chain of selectors and makes the selector before it
  yield directories only (CPython 3.10 ignores the slash). \<open>Path.exists\<close> and
  \<open>Path.is_dir\<close> raise for a name beyond the host's limits; the selectors of the
  model do not, see \<open>within_limits\<close>.
\<close>

text \<open>
  \<open>fnmatch\<close> on one name, case sensitive, for patterns of literal characters,
  \<open>*\<close> (42, any run of characters) and \<open>?\<close> (63, any one character). The bracket
  expressions of \<open>fnmatch.translate\<close> are not part of the model: in the model an
  opening bracket (91) stands for itself, so \<open>fnmatch\<close> is the library's matcher only
  on patterns without one, and the statement about matching (C8) is restricted to those.
\<close>

fun fnmatch :: "str \<Rightarrow> str \<Rightarrow> bool" where
  "fnmatch [] name = (name = [])"
| "fnmatch (p # ps) [] = (p = 42 \<and> fnmatch ps [])"
| "fnmatch (p # ps) (c # cs) =
     (if p = 42 then fnmatch ps (c # cs) \<or> fnmatch (p # ps) cs
      else (p = 63 \<or> p = c) \<and> fnmatch ps cs)"

datatype selector = Recursive | Wildcard str | Precise str | Terminating

definition is_wildcard_pattern :: "str \<Rightarrow> bool" where
  "is_wildcard_pattern pat \<longleftrightarrow> 42 \<in> set pat \<or> 63 \<in> set pat \<or> 91 \<in> set pat"

fun make_selector :: "path \<Rightarrow> exn + selector list" where
  "make_selector [] = Inr []"
| "make_selector (pat # child_parts) =
     (if pat = [] then Inr [Terminating]
      else if pat \<noteq> u ''**'' \<and> sublist (u ''**'') pat then Inl ValueError
      else (case make_selector child_parts of
              Inl e \<Rightarrow> Inl e
            | Inr successor \<Rightarrow>
                Inr ((if pat = u ''**'' then Recursive
                      else if is_wildcard_pattern pat then Wildcard pat
                      else Precise pat) # successor)))"

text \<open>
  The walk of the recursive selector: the directory itself, then the walk of each of
  its subdirectories in the host's order. It is only applied to directories.
\<close>

fun iterate_directories :: "path \<Rightarrow> node \<Rightarrow> path list" where
  "iterate_directories parent_path (File r d) = []"
| "iterate_directories parent_path (Dir es) =
     parent_path #
     concat (map (\<lambda>(name, n). case n of
                                 Dir es' \<Rightarrow> iterate_directories (parent_path @ [name]) n
                               | File r d \<Rightarrow> []) es)"

text \<open>The recursive selector yields each path once (its \<open>yielded\<close> set).\<close>

fun dedup :: "path list \<Rightarrow> path list \<Rightarrow> path list" where
  "dedup yielded [] = []"
| "dedup yielded (p # ps) =
     (if p \<in> set yielded then dedup yielded ps else p # dedup (p # yielded) ps)"

primrec select :: "node \<Rightarrow> selector list \<Rightarrow> path \<Rightarrow> path list" where
  "select fs [] parent_path = [parent_path]"
| "select fs (sel # successor) parent_path =
     (case sel of
        Precise name \<Rightarrow>
          (let p = parent_path @ [name] in
           if (if successor \<noteq> [] then is_dir fs p else exists fs p)
           then select fs successor p else [])
      | Wildcard pat \<Rightarrow>
          concat (map (\<lambda>(name, n).
                         if (if successor \<noteq> [] then (case n of Dir es \<Rightarrow> True | File r d \<Rightarrow> False)
                             else True)
                            \<and> fnmatch pat name
                         then select fs successor (parent_path @ [name]) else [])
                      (scandir fs parent_path))
      | Recursive \<Rightarrow>
          dedup []
            (concat (map (select fs successor)
                         (case lookup fs parent_path of
                            Some (Dir es) \<Rightarrow> iterate_directories parent_path (Dir es)
                          | _ \<Rightarrow> [])))
      | Terminating \<Rightarrow> [parent_path])"

definition select_from :: "node \<Rightarrow> selector list \<Rightarrow> path \<Rightarrow> path list" where
  "select_from fs sels parent_path =
     (if \<not> is_dir fs parent_path then [] else select fs sels parent_path)"

text \<open>The segments of a pattern: an empty one is added when the pattern ends in a slash.\<close>

definition pattern_parts :: "str \<Rightarrow> path" where
  "pattern_parts pattern =
     parse_parts pattern @ (if pattern \<noteq> [] \<and> last pattern = 47 then [[]] else [])"


text \<open>\<open>search_dir.rglob(pattern)\<close> is \<open>glob\<close> with \<open>**\<close> put in front.\<close>

definition rglob :: "node \<Rightarrow> path \<Rightarrow> str \<Rightarrow> exn + path list" where
  "rglob fs target pattern =
     (if is_absolute pattern then Inl NotImplementedError
      else (case make_selector (u ''**'' # pattern_parts pattern) of
              Inl e \<Rightarrow> Inl e
            | Inr sels \<Rightarrow> Inr (select_from fs sels target)))"

section \<open>The tools\<close>

text \<open>
  Every tool returns a formatted message. The model returns the message as a value: one
  constructor for each \<open>return\<close> statement of \<open>server.py\<close>, holding the values that
  the statement interpolates into its text, in the order of the text. The fixed words of
  the messages, the placeholder shown for an empty directory argument and the rounding
  of sizes to KB and MB are not modelled. A tool's result is \<open>Inr\<close> of its message, or
  \<open>Inl\<close> of the exception that leaves the tool uncaught. \<open>get_file_info\<close> reports
  timestamps and is not modelled.
\<close>

datatype entry = DirEntry path | FileEntry path nat

type_synonym hit = "path \<times> nat \<times> str"

datatype outcome =
    PathEscape str  \<comment> \<open>\<open>str(e)\<close> of line 52: \<open>relative_path\<close>\<close>
  | NullByte  \<comment> \<open>\<open>str(e)\<close> of the \<open>ValueError\<close> of \<open>resolve()\<close>\<close>
  | NotEncodableText  \<comment> \<open>\<open>str(e)\<close> of the \<open>UnicodeEncodeError\<close> of \<open>resolve()\<close>\<close>
  | NotFound str  \<comment> \<open>lines 76, 122, 196\<close>
  | NotADirectory str  \<comment> \<open>line 79\<close>
  | NotAFile str  \<comment> \<open>line 125\<close>
  | BinaryFileRejected str  \<comment> \<open>line 130\<close>
  | DecodeError str  \<comment> \<open>line 141: \<open>encoding\<close>\<close>
  | AlreadyExists str  \<comment> \<open>lines 162, 292\<close>
  | NoMatch str str  \<comment> \<open>line 83: \<open>directory\<close>, \<open>pattern\<close>\<close>
  | Listing str str "entry list"  \<comment> \<open>line 102: \<open>directory\<close>, \<open>pattern\<close>, the lines\<close>
  | FileText str nat str  \<comment> \<open>line 135: \<open>file_path\<close>, \<open>lines\<close>, \<open>content\<close>\<close>
  | Saved str nat nat  \<comment> \<open>line 172: \<open>file_path\<close>, the size, the line count\<close>
  | NoHits str str str nat
      \<comment> \<open>line 216: \<open>keyword\<close>, \<open>directory\<close>, \<open>file_pattern\<close>, \<open>files_searched\<close>\<close>
  | Hits str str str "hit list"
      \<comment> \<open>line 227: \<open>keyword\<close>, \<open>directory\<close>, \<open>file_pattern\<close>, \<open>results\<close>\<close>
  | Created str  \<comment> \<open>line 295\<close>

text \<open>\<open>except ValueError as e: return str(e)\<close>.\<close>

definition error_text :: "value_error \<Rightarrow> outcome" where
  "error_text e = (case e of Outside relative_path \<Rightarrow> PathEscape relative_path
                           | EmbeddedNull \<Rightarrow> NullByte
                           | NotEncodable \<Rightarrow> NotEncodableText)"

subsection \<open>\<open>list_files\<close>\<close>



subsection \<open>\<open>read_file\<close>\<close>

definition binary_extensions :: "str list" where
  "binary_extensions =
     [u ''.png'', u ''.jpg'', u ''.jpeg'', u ''.gif'', u ''.pdf'', u ''.zip'', u ''.exe'']"

definition read_file :: "node \<Rightarrow> path \<Rightarrow> str \<Rightarrow> str \<Rightarrow> exn + outcome" where
  "read_file fs ws file_path encoding =
     (case safe_path ws file_path of
        Inl e \<Rightarrow> Inr (error_text e)
      | Inr p \<Rightarrow>
          if \<not> exists fs p then Inr (NotFound file_path)
          else if \<not> is_file fs p then Inr (NotAFile file_path)
          else if lower (path_suffix p) \<in> set binary_extensions
          then Inr (BinaryFileRejected file_path)
          else (case read_text fs p encoding of
                  Inl e \<Rightarrow> if e = UnicodeDecodeError then Inr (DecodeError encoding) else Inl e
                | Inr content \<Rightarrow> Inr (FileText file_path (count_nl content + 1) content)))"

subsection \<open>\<open>write_file\<close>\<close>

text \<open>
  The result comes with the file system after the call. \<open>mkdir_parents\<close> changes
  nothing when it raises.
\<close>

definition write_file ::
  "node \<Rightarrow> path \<Rightarrow> str \<Rightarrow> str \<Rightarrow> bool \<Rightarrow> (exn + outcome) \<times> node" where
  "write_file fs ws file_path content overwrite =
     (case safe_path ws file_path of
        Inl e \<Rightarrow> (Inr (error_text e), fs)
      | Inr p \<Rightarrow>
          if exists fs p \<and> \<not> overwrite then (Inr (AlreadyExists file_path), fs)
          else (case mkdir_parents fs (butlast p) of
                  Inl e \<Rightarrow> (Inl e, fs)
                | Inr fs1 \<Rightarrow>
                    (case write_text fs1 p content of
                       (Some e, fs2) \<Rightarrow> (Inl e, fs2)
                     | (None, fs2) \<Rightarrow>
                         (Inr (Saved file_path (length content) (count_nl content + 1)), fs2))))"

subsection \<open>\<open>search_files\<close>\<close>

text \<open>
  The inner loop of lines 208 to 211 over the lines of one file, numbered from \<open>i\<close>:
  the hits of the file, or the \<open>ValueError\<close> of \<open>relative_to\<close>.
\<close>

fun scan_lines :: "path \<Rightarrow> str \<Rightarrow> path \<Rightarrow> nat \<Rightarrow> str list \<Rightarrow> exn + hit list" where
  "scan_lines ws keyword file_path i [] = Inr []"
| "scan_lines ws keyword file_path i (line # lines) =
     (if sublist (lower keyword) (lower line) then
        (case relative_to file_path ws of
           Inl e \<Rightarrow> Inl e
         | Inr relative \<Rightarrow>
             (case scan_lines ws keyword file_path (i + 1) lines of
                Inl e \<Rightarrow> Inl e
              | Inr hits \<Rightarrow> Inr ((relative, i, strip line) # hits)))
      else scan_lines ws keyword file_path (i + 1) lines)"

text \<open>
  The outer loop of lines 201 to 213, from the state \<open>(results, files_searched)\<close>.
  \<open>UnicodeDecodeError\<close> and \<open>PermissionError\<close> of \<open>read_text\<close> skip the file.
\<close>

fun search_loop ::
  "node \<Rightarrow> path \<Rightarrow> str \<Rightarrow> path list \<Rightarrow> hit list \<times> nat \<Rightarrow> exn + hit list \<times> nat" where
  "search_loop fs ws keyword [] (results, files_searched) = Inr (results, files_searched)"
| "search_loop fs ws keyword (file_path # rest) (results, files_searched) =
     (if \<not> is_file fs file_path then search_loop fs ws keyword rest (results, files_searched)
      else
        (case read_text fs file_path (u ''utf-8'') of
           Inl e \<Rightarrow>
             if e = UnicodeDecodeError \<or> e = PermissionError
             then search_loop fs ws keyword rest (results, files_searched + 1)
             else Inl e
         | Inr content \<Rightarrow>
             (case scan_lines ws keyword file_path 1 (split_on 10 content) of
                Inl e \<Rightarrow> Inl e
              | Inr hits \<Rightarrow>
                  search_loop fs ws keyword rest (results @ hits, files_searched + 1))))"

definition search_files :: "node \<Rightarrow> path \<Rightarrow> str \<Rightarrow> str \<Rightarrow> str \<Rightarrow> exn + outcome" where
  "search_files fs ws keyword file_pattern directory =
     (case safe_path ws directory of
        Inl e \<Rightarrow> Inr (error_text e)
      | Inr search_dir \<Rightarrow>
          if \<not> exists fs search_dir then Inr (NotFound directory)
          else (case rglob fs search_dir file_pattern of
                  Inl e \<Rightarrow> Inl e
                | Inr files \<Rightarrow>
                    (case search_loop fs ws keyword files ([], 0) of
                       Inl e \<Rightarrow> Inl e
                     | Inr (results, files_searched) \<Rightarrow>
                         if results = []
                         then Inr (NoHits keyword directory file_pattern files_searched)
                         else Inr (Hits keyword directory file_pattern results))))"

subsection \<open>\<open>create_directory\<close>\<close>

definition create_directory :: "node \<Rightarrow> path \<Rightarrow> str \<Rightarrow> (exn + outcome) \<times> node" where
  "create_directory fs ws dir_path =
     (case safe_path ws dir_path of
        Inl e \<Rightarrow> (Inr (error_text e), fs)
      | Inr p \<Rightarrow>
          if exists fs p then (Inr (AlreadyExists dir_path), fs)
          else (case mkdir_parents fs p of
                  Inl e \<Rightarrow> (Inl e, fs)
                | Inr fs' \<Rightarrow> (Inr (Created dir_path), fs')))"

section \<open>Example file systems\<close>

definition workspace :: path where
  "workspace = [u ''workspace'']"

text \<open>
  A host with the work directory \<open>/workspace\<close> and, beside it, a directory
  \<open>/workspace-evil\<close> that is not part of it.
\<close>

definition demo_fs :: node where
  "demo_fs =
     Dir [(u ''workspace'',
           Dir [(u ''notes.txt'', File True (u ''one\<newline>two'')),
                (u ''sub'', Dir [(u ''c.txt'', File True (u ''deep''))]),
                (u ''image.png'', File False [137, 80, 78, 71])]),
          (u ''workspace-evil'',
           Dir [(u ''secret.txt'', File True (u ''s3cret''))])]"



text \<open>
  A work directory with a file that is not UTF-8, a file that may not be read and a
  file without the keyword.
\<close>

definition skip_fs :: node where
  "skip_fs =
     Dir [(u ''workspace'',
           Dir [(u ''bad.txt'', File True [255, 254]),
                (u ''locked.txt'', File False (u ''hello'')),
                (u ''plain.txt'', File True (u ''nothing here'')),
                (u ''data'', Dir [])])]"

section \<open>The search result as the specification words it\<close>




text \<open>Whether the process may open the regular file at a path for reading.\<close>

definition may_read :: "node \<Rightarrow> path \<Rightarrow> bool" where
  "may_read fs p = (case lookup fs p of Some (File r d) \<Rightarrow> r | _ \<Rightarrow> False)"

section \<open>The listing of one directory as the specification words it\<close>




section \<open>Properties of the path check\<close>

text \<open>
  C1. A relative path that leaves the work directory must be refused, also when it
  leads to a sibling directory whose name begins with the name of the work directory.
  The check of \<open>_safe_path\<close> compares the two paths as strings, so with the work
  directory \<open>/workspace\<close> the path \<open>../workspace-evil/secret.txt\<close> is accepted: it
  resolves to \<open>/workspace-evil/secret.txt\<close>, and \<open>read_file\<close> returns the contents
  of that file.
\<close>

theorem safe_path_sibling_escape:
  "safe_path workspace (u ''../workspace-evil/secret.txt'')
     = Inr [u ''workspace-evil'', u ''secret.txt'']
   \<and> read_file demo_fs workspace (u ''../workspace-evil/secret.txt'') (u ''utf-8'')
       = Inr (FileText (u ''../workspace-evil/secret.txt'') 1 (u ''s3cret''))"
  by code_simp

section \<open>Properties of the tools\<close>

text \<open>
  C2. No tool lets an exception reach its caller. Two calls show that the tools do:
  \<open>read_file\<close> with an encoding name that no codec has raises \<open>LookupError\<close>, which
  the handler of line 140 does not catch, and \<open>write_file\<close> with \<open>overwrite=True\<close>
  on a directory raises \<open>IsADirectoryError\<close>.
\<close>

theorem tools_propagate_exceptions:
  "read_file demo_fs workspace (u ''notes.txt'') (u ''no-such-codec'') = Inl LookupError
   \<and> write_file demo_fs workspace (u ''sub'') (u ''x'') True = (Inl IsADirectoryError, demo_fs)"
  by code_simp



text \<open>
  C6. The size that \<open>write_file\<close> reports is the number of bytes written. The code
  reports \<open>len(content)\<close>, the number of code points: for the one-character text
  \<open>U+00E9\<close> it reports 1 and labels it bytes, while the file it wrote holds 2 bytes.
\<close>

theorem write_file_reports_code_points:
  "fst (write_file demo_fs workspace (u ''cafe.txt'') [233] False)
     = Inr (Saved (u ''cafe.txt'') 1 1)
   \<and> st_size (snd (write_file demo_fs workspace (u ''cafe.txt'') [233] False))
        [u ''workspace'', u ''cafe.txt''] = 2"
  by code_simp



section \<open>Properties of the search\<close>

lemma search_loop_count:
  "search_loop fs ws keyword files (acc, k) = Inr (res, n)
   \<Longrightarrow> n = k + length (filter (is_file fs) files)"
proof (induction files arbitrary: acc k)
  case Nil
  then show ?case by simp
next
  case (Cons f files)
  show ?case
  proof (cases "is_file fs f")
    case False
    with Cons show ?thesis by simp
  next
    case True
    show ?thesis
    proof (cases "read_text fs f (u ''utf-8'')")
      case (Inl e)
      with True Cons.prems have "search_loop fs ws keyword files (acc, k + 1) = Inr (res, n)"
        by (simp split: if_splits)
      from Cons.IH[OF this] True show ?thesis by simp
    next
      case (Inr content)
      with True Cons.prems obtain hits where
        "search_loop fs ws keyword files (acc @ hits, k + 1) = Inr (res, n)"
        by (auto split: sum.splits)
      from Cons.IH[OF this] True show ?thesis by simp
    qed
  qed
qed



text \<open>The search example, evaluated step by step.\<close>

lemma search_example_safe: "safe_path workspace [] = Inr [u ''workspace'']"
  by code_simp


















text \<open>
  C9. The number of files scanned counts every regular file of the enumeration, also
  those that the loop skips because they are not UTF-8 or may not be read: it is the
  number of regular files that \<open>rglob\<close> yields, for the counter of the loop and for
  the number in the message without hits.
\<close>

theorem search_files_counts_skipped:
  assumes "safe_path ws directory = Inr search_dir"
    and "rglob fs search_dir file_pattern = Inr files"
  shows "(search_loop fs ws keyword files ([], 0) = Inr (results, n)
          \<longrightarrow> n = length (filter (is_file fs) files))
       \<and> (search_files fs ws keyword file_pattern directory = Inr (NoHits k d p m)
          \<longrightarrow> m = length (filter (is_file fs) files))"
proof -
  have one: "n = length (filter (is_file fs) files)"
    if "search_loop fs ws keyword files ([], 0) = Inr (results, n)" for results n
    using search_loop_count[OF that] by simp
  have two: "m = length (filter (is_file fs) files)"
    if h: "search_files fs ws keyword file_pattern directory = Inr (NoHits k d p m)"
  proof -
    from h assms obtain res where "search_loop fs ws keyword files ([], 0) = Inr (res, m)"
      by (auto simp: search_files_def split: if_splits sum.splits prod.splits)
    then show ?thesis by (rule one)
  qed
  from one two show ?thesis by blast
qed

theorem search_files_counts_skipped_witness:
  "safe_path workspace [] = Inr [u ''workspace'']
   \<and> rglob skip_fs [u ''workspace''] (u ''*.txt'')
       = Inr [[u ''workspace'', u ''bad.txt''], [u ''workspace'', u ''locked.txt''],
              [u ''workspace'', u ''plain.txt'']]
   \<and> read_text skip_fs [u ''workspace'', u ''bad.txt''] (u ''utf-8'') = Inl UnicodeDecodeError
   \<and> read_text skip_fs [u ''workspace'', u ''locked.txt''] (u ''utf-8'') = Inl PermissionError
   \<and> search_files skip_fs workspace (u ''hello'') (u ''*.txt'') []
       = Inr (NoHits (u ''hello'') [] (u ''*.txt'') 3)
   \<and> length (filter (is_file skip_fs)
        [[u ''workspace'', u ''bad.txt''], [u ''workspace'', u ''locked.txt''],
         [u ''workspace'', u ''plain.txt'']]) = 3"
proof -
  have b: "rglob skip_fs [u ''workspace''] (u ''*.txt'')
       = Inr [[u ''workspace'', u ''bad.txt''], [u ''workspace'', u ''locked.txt''],
              [u ''workspace'', u ''plain.txt'']]"
    by code_simp
  have c: "read_text skip_fs [u ''workspace'', u ''bad.txt''] (u ''utf-8'')
             = Inl UnicodeDecodeError"
    by code_simp
  have d: "read_text skip_fs [u ''workspace'', u ''locked.txt''] (u ''utf-8'')
             = Inl PermissionError"
    by code_simp
  have e: "search_files skip_fs workspace (u ''hello'') (u ''*.txt'') []
       = Inr (NoHits (u ''hello'') [] (u ''*.txt'') 3)"
    by code_simp
  from search_files_counts_skipped[OF search_example_safe b,
      of "u ''hello''" "[]" 0 "u ''hello''" "[]" "u ''*.txt''" 3]
    search_example_safe b c d e
  show ?thesis by simp
qed




section \<open>Properties of the UTF-8 codec\<close>

text \<open>Decoding one sequence of two, three or four bytes built from its parts.\<close>

lemma dec2_bytes:
  assumes "q < 32" "r < 64" "128 \<le> q * 64 + r"
  shows "utf8_decode ((192 + q) # (128 + r) # rest)
           = map_option (Cons (q * 64 + r)) (utf8_decode rest)"
  using assms by (simp add: is_cont_def)

lemma dec3_bytes:
  assumes "q < 16" "r < 64" "s < 64" "2048 \<le> q * 4096 + r * 64 + s"
    "\<not> (55296 \<le> q * 4096 + r * 64 + s \<and> q * 4096 + r * 64 + s < 57344)"
  shows "utf8_decode ((224 + q) # (128 + r) # (128 + s) # rest)
           = map_option (Cons (q * 4096 + r * 64 + s)) (utf8_decode rest)"
  using assms by (simp add: is_cont_def)

lemma dec4_bytes:
  assumes "q < 8" "r < 64" "s < 64" "t < 64" "65536 \<le> q * 262144 + r * 4096 + s * 64 + t"
    "q * 262144 + r * 4096 + s * 64 + t < 1114112"
  shows "utf8_decode ((240 + q) # (128 + r) # (128 + s) # (128 + t) # rest)
           = map_option (Cons (q * 262144 + r * 4096 + s * 64 + t)) (utf8_decode rest)"
  using assms by (simp add: is_cont_def)

text \<open>A code point is the sum of its six-bit groups.\<close>

lemma split3: "(c::nat) div 4096 * 4096 + c div 64 mod 64 * 64 + c mod 64 = c"
proof -
  define d where "d = c div 64"
  have a: "c div 4096 = d div 64" unfolding d_def by (simp add: div_mult2_eq)
  have b: "d div 64 * 64 + d mod 64 = d" by simp
  have c: "d * 64 + c mod 64 = c" unfolding d_def by simp
  have "d div 64 * 4096 + d mod 64 * 64 = d * 64" using b by arith
  then show ?thesis using a c unfolding d_def[symmetric] by arith
qed

lemma split4:
  "(c::nat) div 262144 * 262144 + c div 4096 mod 64 * 4096 + c div 64 mod 64 * 64 + c mod 64
     = c"
proof -
  define d where "d = c div 4096"
  have a: "c div 262144 = d div 64" unfolding d_def by (simp add: div_mult2_eq)
  have b: "d div 64 * 64 + d mod 64 = d" by simp
  have "d div 64 * 262144 + d mod 64 * 4096 = d * 4096" using b by arith
  moreover have "d * 4096 + c div 64 mod 64 * 64 + c mod 64 = c"
    unfolding d_def by (rule split3)
  ultimately show ?thesis using a unfolding d_def[symmetric] by arith
qed

lemma utf8_decode_encode_cp:
  assumes "utf8_encode_cp c = Some bs"
  shows "utf8_decode (bs @ rest) = map_option (Cons c) (utf8_decode rest)"
proof -
  consider (one) "c < 128" | (two) "128 \<le> c" "c < 2048"
    | (sur) "2048 \<le> c" "55296 \<le> c \<and> c < 57344"
    | (three) "2048 \<le> c" "c < 65536" "\<not> (55296 \<le> c \<and> c < 57344)"
    | (four) "65536 \<le> c" "c < 1114112" | (big) "1114112 \<le> c"
    by linarith
  then show ?thesis
  proof cases
    case one
    with assms have "bs = [c]" by (simp add: utf8_encode_cp_def)
    with one show ?thesis by simp
  next
    case two
    with assms have bs: "bs = [192 + c div 64, 128 + c mod 64]"
      by (simp add: utf8_encode_cp_def)
    have q: "c div 64 < 32" using two(2) by (simp add: less_mult_imp_div_less)
    have r: "c mod 64 < 64" by simp
    have e: "c div 64 * 64 + c mod 64 = c" by simp
    have "128 \<le> c div 64 * 64 + c mod 64" unfolding e by (rule two(1))
    from dec2_bytes[OF q r this, of rest] show ?thesis by (simp only: e bs append.simps)
  next
    case sur
    with assms show ?thesis by (simp add: utf8_encode_cp_def)
  next
    case three
    with assms have bs: "bs = [224 + c div 4096, 128 + c div 64 mod 64, 128 + c mod 64]"
      by (simp add: utf8_encode_cp_def)
    have q: "c div 4096 < 16" using three(2) by (simp add: less_mult_imp_div_less)
    have r: "c div 64 mod 64 < 64" and s: "c mod 64 < 64" by simp_all
    note e = split3[of c]
    have lo: "2048 \<le> c div 4096 * 4096 + c div 64 mod 64 * 64 + c mod 64"
      unfolding e by (rule three(1))
    have ns: "\<not> (55296 \<le> c div 4096 * 4096 + c div 64 mod 64 * 64 + c mod 64
                 \<and> c div 4096 * 4096 + c div 64 mod 64 * 64 + c mod 64 < 57344)"
      unfolding e by (rule three(3))
    from dec3_bytes[OF q r s lo ns, of rest] show ?thesis by (simp only: e bs append.simps)
  next
    case four
    with assms have bs: "bs = [240 + c div 262144, 128 + c div 4096 mod 64,
                               128 + c div 64 mod 64, 128 + c mod 64]"
      by (simp add: utf8_encode_cp_def)
    have q: "c div 262144 < 8" using four(2) by (simp add: less_mult_imp_div_less)
    have r: "c div 4096 mod 64 < 64" and s: "c div 64 mod 64 < 64" and t: "c mod 64 < 64"
      by simp_all
    note e = split4[of c]
    have lo: "65536 \<le> c div 262144 * 262144 + c div 4096 mod 64 * 4096
                        + c div 64 mod 64 * 64 + c mod 64"
      unfolding e by (rule four(1))
    have hi: "c div 262144 * 262144 + c div 4096 mod 64 * 4096
                + c div 64 mod 64 * 64 + c mod 64 < 1114112"
      unfolding e by (rule four(2))
    from dec4_bytes[OF q r s t lo hi, of rest] show ?thesis by (simp only: e bs append.simps)
  next
    case big
    with assms show ?thesis by (simp add: utf8_encode_cp_def)
  qed
qed

text \<open>What \<open>encode\<close> produces, \<open>decode\<close> reads back.\<close>

lemma utf8_roundtrip: "utf8_encode s = Some b \<Longrightarrow> utf8_decode b = Some s"
proof (induction s arbitrary: b)
  case Nil
  then show ?case by simp
next
  case (Cons c cs)
  then obtain bs rest where e: "utf8_encode_cp c = Some bs" "utf8_encode cs = Some rest"
      "b = bs @ rest"
    by (auto split: option.splits)
  with Cons.IH have "utf8_decode rest = Some cs" by simp
  with e show ?case using utf8_decode_encode_cp[OF e(1), of rest] by simp
qed

section \<open>Properties of writing and reading\<close>

lemma universal_newlines_id: "13 \<notin> set s \<Longrightarrow> universal_newlines s = s"
  by (induction s rule: universal_newlines.induct) auto

lemma resolve_acc_no_dotdot:
  "u ''..'' \<notin> set acc \<Longrightarrow> u ''..'' \<notin> set (resolve_acc acc p)"
proof (induction p arbitrary: acc)
  case Nil
  then show ?case by simp
next
  case (Cons seg segs)
  have "u ''..'' \<notin> set (tl acc)" using Cons.prems by (cases acc) auto
  with Cons show ?case by auto
qed

lemma safe_path_no_dotdot: "safe_path ws rel = Inr p \<Longrightarrow> u ''..'' \<notin> set p"
  using resolve_acc_no_dotdot[of "[]"]
  by (auto simp: safe_path_def resolve_def Let_def split: if_splits option.splits)

lemma os_write_lookup:
  "os_write n p b = Inr n' \<Longrightarrow> u ''..'' \<notin> set p
   \<Longrightarrow> \<exists>r. lookup_from anc n' p = Some (File r b)"
proof (induction n p b arbitrary: n' anc rule: os_write.induct)
  case (1 r d b)
  then show ?case by auto
next
  case (2 es b)
  then show ?case by simp
next
  case (3 r d seg segs b)
  then show ?case by simp
next
  case (4 es seg segs b)
  from "4.prems"(2) have ne: "seg \<noteq> u ''..''" and nd: "u ''..'' \<notin> set segs" by auto
  show ?case
  proof (cases "map_of es seg")
    case None
    with "4.prems"(1) have s: "segs = []" and n': "n' = Dir (es @ [(seg, File True b)])"
      by (auto split: if_splits)
    from None have "map_of (es @ [(seg, File True b)]) seg = Some (File True b)"
      by (simp add: map_add_def)
    with s n' ne show ?thesis by auto
  next
    case (Some c)
    with "4.prems"(1) obtain c' where w: "os_write c segs b = Inr c'"
      and n': "n' = Dir (AList.update seg c' es)"
      by (auto split: sum.splits)
    from "4.IH"[OF Some w nd] obtain r where
      "lookup_from (Dir (AList.update seg c' es) # anc) c' segs = Some (File r b)" by blast
    with n' ne show ?thesis by (auto simp: update_conv')
  qed
qed

lemma codecs_lookup_utf8: "codecs_lookup (u ''utf-8'') = Some Utf8"
  by code_simp

lemma utf8_name_ok: "\<not> list_ex surrogate (u ''utf-8'')" "0 \<notin> set (u ''utf-8'')"
  by code_simp+


lemma write_text_lookup:
  assumes "write_text fs p content = (None, fs')" and "u ''..'' \<notin> set p"
  shows "\<exists>r b. utf8_encode content = Some b \<and> lookup fs' p = Some (File r b)"
proof -
  from assms(1) obtain fs2 b where "utf8_encode content = Some b" "os_write fs2 p b = Inr fs'"
    by (auto simp: write_text_def split: sum.splits option.splits)
  with os_write_lookup[of fs2 p b fs' "[]"] assms(2) show ?thesis
    by (auto simp: lookup_def)
qed

text \<open>
  C3 as stated: for every accepted path and every text, writing with \<open>overwrite=True\<close>
  and then reading gives the text back. It fails for a path with a binary extension
  (the write succeeds, the read is refused), for a text with a carriage return (read
  back as a line feed), and for an existing file that may not be read.
\<close>

theorem write_then_read_counterexample:
  "fst (write_file demo_fs workspace (u ''photo.png'') (u ''text'') True)
     = Inr (Saved (u ''photo.png'') 4 1)
   \<and> read_file (snd (write_file demo_fs workspace (u ''photo.png'') (u ''text'') True))
         workspace (u ''photo.png'') (u ''utf-8'')
       = Inr (BinaryFileRejected (u ''photo.png''))
   \<and> fst (write_file demo_fs workspace (u ''dos.txt'') [97, 13, 10, 98] True)
       = Inr (Saved (u ''dos.txt'') 4 2)
   \<and> read_file (snd (write_file demo_fs workspace (u ''dos.txt'') [97, 13, 10, 98] True))
         workspace (u ''dos.txt'') (u ''utf-8'')
       = Inr (FileText (u ''dos.txt'') 2 [97, 10, 98])
   \<and> fst (write_file skip_fs workspace (u ''locked.txt'') (u ''text'') True)
       = Inr (Saved (u ''locked.txt'') 4 1)
   \<and> read_file (snd (write_file skip_fs workspace (u ''locked.txt'') (u ''text'') True))
         workspace (u ''locked.txt'') (u ''utf-8'')
       = Inl PermissionError"
  by code_simp

text \<open>
  C3, amended. For a path that the path check accepts and whose suffix is not a binary
  extension, and a text without carriage returns: when \<open>write_file\<close> with
  \<open>overwrite=True\<close> succeeds and the file may be read, \<open>read_file\<close> returns the
  same text, and its line count is the number of line feeds of the text plus 1, the
  count that the write reported.
\<close>

theorem write_then_read:
  assumes "safe_path ws file_path = Inr p"
    and "write_file fs ws file_path content True = (Inr (Saved f n l), fs')"
    and "lower (path_suffix p) \<notin> set binary_extensions"
    and "13 \<notin> set content"
    and "may_read fs' p"
  shows "read_file fs' ws file_path (u ''utf-8'')
           = Inr (FileText file_path (count_nl content + 1) content)
         \<and> l = count_nl content + 1"
proof -
  from assms(1,2) have wt: "write_text (case mkdir_parents fs (butlast p) of Inr fs1 \<Rightarrow> fs1 | Inl e \<Rightarrow> fs) p content = (None, fs')"
    and l: "l = count_nl content + 1"
    by (auto simp: write_file_def split: sum.splits prod.splits option.splits)
  from write_text_lookup[OF wt safe_path_no_dotdot[OF assms(1)]] obtain r b where
    e: "utf8_encode content = Some b" and lk: "lookup fs' p = Some (File r b)" by blast
  from lk assms(5) have r: "r = True" by (simp add: may_read_def)
  from utf8_roundtrip[OF e] have d: "utf8_decode b = Some content" .
  have rt: "read_text fs' p (u ''utf-8'') = Inr content"
    using lk r d universal_newlines_id[OF assms(4)]
    by (simp add: read_text_def codecs_lookup_utf8 utf8_name_ok decode_with_def)
  from lk have "exists fs' p" "is_file fs' p" by (simp_all add: exists_def is_file_def)
  with assms(1,3) rt l show ?thesis by (simp add: read_file_def)
qed

lemma write_example_encode:
  "utf8_encode [104, 233, 10, 8364] = Some [104, 195, 169, 10, 226, 130, 172]"
  by (simp add: utf8_encode_cp_def)

theorem write_then_read_witness:
  "safe_path workspace (u ''new/x.txt'') = Inr [u ''workspace'', u ''new'', u ''x.txt'']
   \<and> fst (write_file demo_fs workspace (u ''new/x.txt'') [104, 233, 10, 8364] True)
       = Inr (Saved (u ''new/x.txt'') 4 2)
   \<and> lower (path_suffix [u ''workspace'', u ''new'', u ''x.txt'']) \<notin> set binary_extensions
   \<and> 13 \<notin> set [104, 233, 10, 8364 :: nat]
   \<and> may_read (snd (write_file demo_fs workspace (u ''new/x.txt'') [104, 233, 10, 8364] True))
         [u ''workspace'', u ''new'', u ''x.txt'']
   \<and> read_file (snd (write_file demo_fs workspace (u ''new/x.txt'') [104, 233, 10, 8364] True))
         workspace (u ''new/x.txt'') (u ''utf-8'')
       = Inr (FileText (u ''new/x.txt'') 2 [104, 233, 10, 8364])"
proof -
  let ?w = "write_file demo_fs workspace (u ''new/x.txt'') [104, 233, 10, 8364] True"
  have a: "safe_path workspace (u ''new/x.txt'') = Inr [u ''workspace'', u ''new'', u ''x.txt'']"
    by code_simp
  have b: "fst ?w = Inr (Saved (u ''new/x.txt'') 4 2)"
    unfolding write_file_def write_text_def write_example_encode by code_simp
  have c: "lower (path_suffix [u ''workspace'', u ''new'', u ''x.txt''])
             \<notin> set binary_extensions"
    by code_simp
  have d: "13 \<notin> set [104, 233, 10, 8364 :: nat]"
    by simp
  have e: "may_read (snd ?w) [u ''workspace'', u ''new'', u ''x.txt'']"
    unfolding write_file_def write_text_def write_example_encode by code_simp
  from b have w: "?w = (Inr (Saved (u ''new/x.txt'') 4 2), snd ?w)"
    by (simp add: prod_eq_iff)
  from write_then_read[OF a w c d e] a b c d e show ?thesis
    by (simp add: count_nl_def)
qed

section \<open>Properties of the listing\<close>





















end
